theory Spec2Isabelle
  imports Main
begin

section \<open>pyseto: the v2 cipher-suite adapter (versions/v2.py)\<close>

text \<open>
  Python \<open>bytes\<close> values are modelled as \<open>string\<close>: an Isabelle \<open>char\<close> is one byte.
  The PASERK strings of the source are ASCII text; they are modelled by the same
  type, and \<open>.encode("utf-8")\<close> / \<open>.decode("utf-8")\<close> are the identity on them.
\<close>

type_synonym bytes = string

subsection \<open>Exceptions\<close>

text \<open>
  Every exception class the adapter raises, with its message. \<open>IndexError\<close> is what
  \<open>frags[i]\<close> raises out of range. \<open>LibraryError\<close> stands for an exception that a
  collaborator (codec, hash, key parser) raises outside every \<open>try\<close> block of the
  adapter, so that it reaches the caller unchanged.
\<close>

datatype error =
    ValueError string
  | IndexError
  | EncryptError string
  | DecryptError string
  | SignError string
  | VerifyError string
  | LibraryError

subsection \<open>Python sequence operations\<close>

text \<open>Slice bounds as Python normalises them: a negative bound counts from the end,
  and every bound is clamped to the sequence.\<close>

definition clamp_index :: "nat \<Rightarrow> int \<Rightarrow> nat" where
  "clamp_index n i = (if i < 0 then nat (int n + i) else min (nat i) n)"

text \<open>\<open>xs[i:j]\<close>, \<open>xs[i:]\<close> and \<open>xs[:j]\<close>.\<close>

definition slice :: "'a list \<Rightarrow> int \<Rightarrow> int \<Rightarrow> 'a list" where
  "slice xs i j =
     take (clamp_index (length xs) j - clamp_index (length xs) i)
       (drop (clamp_index (length xs) i) xs)"

definition slice_from :: "'a list \<Rightarrow> int \<Rightarrow> 'a list" where
  "slice_from xs i = drop (clamp_index (length xs) i) xs"

definition slice_to :: "'a list \<Rightarrow> int \<Rightarrow> 'a list" where
  "slice_to xs j = take (clamp_index (length xs) j) xs"

text \<open>\<open>xs[i]\<close> for a non-negative literal index.\<close>

definition getitem :: "'a list \<Rightarrow> nat \<Rightarrow> error + 'a" where
  "getitem xs i = (if i < length xs then Inr (xs ! i) else Inl IndexError)"

text \<open>\<open>s.split(sep)\<close> for a one-character separator: it always returns at least one
  fragment.\<close>

fun split :: "char \<Rightarrow> string \<Rightarrow> string list" where
  "split sep [] = [[]]"
| "split sep (c # cs) =
     (if c = sep then [] # split sep cs
      else (case split sep cs of [] \<Rightarrow> [[c]] | f # fs \<Rightarrow> (c # f) # fs))"

subsection \<open>Collaborators\<close>

text \<open>
  The cryptographic library, the base64url codec of \<open>utils\<close> and the key parsers are
  not part of the adapter; the adapter is modelled over a record of them.
  A result \<open>None\<close> (or \<open>False\<close> for \<open>verify\<close>) is the collaborator raising an exception.

  \<^item> \<open>aead_encrypt key nonce aad plaintext\<close> is
    \<open>ChaCha20_Poly1305.new(key, nonce)\<close>, \<open>update(aad)\<close>, \<open>encrypt_and_digest(plaintext)\<close>,
    giving ciphertext and tag;
  \<^item> \<open>aead_decrypt key nonce aad ciphertext tag\<close> is \<open>new\<close>, \<open>update\<close>,
    \<open>decrypt_and_verify(ciphertext, tag)\<close>;
  \<^item> \<open>blake2b key digest_size msg\<close> is \<open>hashlib.blake2b(key=key, digest_size=digest_size)\<close>,
    \<open>update(msg)\<close>, \<open>digest()\<close>; the unkeyed hash has the empty key;
  \<^item> \<open>ed25519_sign private msg\<close>, \<open>ed25519_verify public signature msg\<close> and
    \<open>ed25519_public_key private\<close> are the methods of the Ed25519 key objects, on the raw
    bytes of the keys;
  \<^item> \<open>valid_public_bytes\<close> and \<open>valid_private_bytes\<close> say which raw bytes
    \<open>Ed25519PublicKey.from_public_bytes\<close> and \<open>Ed25519PrivateKey.from_private_bytes\<close> accept.
\<close>

record primitives =
  aead_encrypt :: "bytes \<Rightarrow> bytes \<Rightarrow> bytes \<Rightarrow> bytes \<Rightarrow> (bytes \<times> bytes) option"
  aead_decrypt :: "bytes \<Rightarrow> bytes \<Rightarrow> bytes \<Rightarrow> bytes \<Rightarrow> bytes \<Rightarrow> bytes option"
  blake2b :: "bytes \<Rightarrow> nat \<Rightarrow> bytes \<Rightarrow> bytes option"
  ed25519_sign :: "bytes \<Rightarrow> bytes \<Rightarrow> bytes option"
  ed25519_verify :: "bytes \<Rightarrow> bytes \<Rightarrow> bytes \<Rightarrow> bool"
  ed25519_public_key :: "bytes \<Rightarrow> bytes"
  valid_public_bytes :: "bytes \<Rightarrow> bool"
  valid_private_bytes :: "bytes \<Rightarrow> bool"
  base64url_encode :: "bytes \<Rightarrow> bytes"
  base64url_decode :: "bytes \<Rightarrow> bytes option"

text \<open>\<open>secrets.token_bytes(n)\<close>: the first \<open>n\<close> bytes of the entropy source, which is
  an argument of every operation that draws from it.\<close>

type_synonym entropy = "nat \<Rightarrow> char"

definition token_bytes :: "entropy \<Rightarrow> nat \<Rightarrow> bytes" where
  "token_bytes ent n = map ent [0..<n]"

subsection \<open>Pre-authentication encoding\<close>

text \<open>Modelled from the spec: \<open>pae\<close> of \<open>utils\<close> is not among the sources. Section 4.1
  gives it: the 8-byte little-endian count of the parts, then for each part its 8-byte
  little-endian length and its bytes. It never fails.\<close>

fun le_bytes :: "nat \<Rightarrow> nat \<Rightarrow> bytes" where
  "le_bytes 0 n = []"
| "le_bytes (Suc k) n = char_of (n mod 256) # le_bytes k (n div 256)"

definition le64 :: "nat \<Rightarrow> bytes" where
  "le64 n = le_bytes 8 n"

definition pae :: "bytes list \<Rightarrow> bytes" where
  "pae pieces = le64 (length pieces) @ concat (map (\<lambda>p. le64 (length p) @ p) pieces)"

subsection \<open>Key objects\<close>

text \<open>Modelled from the spec: \<open>KeyInterface\<close> and \<open>LocalKey\<close> (key_interface.py,
  local_key.py) are not among the sources. Section 3 gives the fields of a key: version,
  purpose, key material and the header \<open>v{version}.{purpose}.\<close>; section 4.4 gives
  \<open>to_paserk\<close> of a local key as \<open>k{version}.local.{base64url(material)}\<close>. The rejection
  of empty material with "key must be specified." is the one the tests expect
  (tests/test_v4.py). Key material is \<open>bytes\<close>; the \<open>str\<close> alternative of the
  constructor's annotation is not modelled.\<close>

record 'k KeyInterface =
  k_version :: nat
  k_purpose :: string
  k_header :: bytes
  k_key :: 'k

definition version_str :: "nat \<Rightarrow> string" where
  "version_str v = (if v = 1 then ''1'' else if v = 2 then ''2'' else if v = 3 then ''3'' else ''4'')"

definition KeyInterface_init :: "nat \<Rightarrow> string \<Rightarrow> 'k \<Rightarrow> 'k KeyInterface" where
  "KeyInterface_init v p key =
     \<lparr>k_version = v, k_purpose = p,
      k_header = ''v'' @ version_str v @ ''.'' @ p @ ''.'', k_key = key\<rparr>"

definition LocalKey_init :: "nat \<Rightarrow> string \<Rightarrow> bytes \<Rightarrow> error + bytes KeyInterface" where
  "LocalKey_init v p key =
     (if key = [] then Inl (ValueError ''key must be specified.'')
      else Inr (KeyInterface_init v p key))"

definition LocalKey_to_paserk :: "primitives \<Rightarrow> bytes KeyInterface \<Rightarrow> string" where
  "LocalKey_to_paserk P self =
     ''k'' @ version_str (k_version self) @ ''.local.'' @ base64url_encode P (k_key self)"

subsection \<open>V2Local\<close>

type_synonym V2Local = "bytes KeyInterface"

definition V2Local_init :: "bytes \<Rightarrow> error + V2Local" where
  "V2Local_init key =
     (case LocalKey_init 2 ''local'' key of
        Inl e \<Rightarrow> Inl e
      | Inr self \<Rightarrow>
          if length (k_key self) \<noteq> 32 then Inl (ValueError ''key must be 32 bytes long.'')
          else Inr self)"

definition V2Local_from_paserk :: "primitives \<Rightarrow> string \<Rightarrow> error + V2Local" where
  "V2Local_from_paserk P paserk =
     (let frags = split (CHR ''.'') paserk in
      case getitem frags 0 of
        Inl e \<Rightarrow> Inl e
      | Inr f0 \<Rightarrow>
          if f0 \<noteq> ''k2'' then Inl (ValueError ''Invalid PASERK version for a v2.local key.'')
          else (case getitem frags 1 of
            Inl e \<Rightarrow> Inl e
          | Inr f1 \<Rightarrow>
              if f1 \<noteq> ''local'' then Inl (ValueError ''Invalid PASERK type for a v2.local key.'')
              else (case getitem frags 2 of
                Inl e \<Rightarrow> Inl e
              | Inr f2 \<Rightarrow>
                  (case base64url_decode P f2 of
                     None \<Rightarrow> Inl LibraryError
                   | Some raw \<Rightarrow> V2Local_init raw))))"

definition V2Local_generate_nonce ::
  "primitives \<Rightarrow> entropy \<Rightarrow> bytes \<Rightarrow> bytes \<Rightarrow> error + bytes" where
  "V2Local_generate_nonce P ent key msg =
     (if key \<noteq> [] \<and> length key \<noteq> 24 then Inl (ValueError ''nonce must be 24 bytes long.'')
      else
        (case blake2b P (if key \<noteq> [] then key else token_bytes ent 24) 24 msg of
           None \<Rightarrow> Inl (EncryptError ''Failed to generate internal nonce.'')
         | Some d \<Rightarrow> Inr d))"

definition V2Local_encrypt ::
  "primitives \<Rightarrow> entropy \<Rightarrow> V2Local \<Rightarrow> bytes \<Rightarrow> bytes \<Rightarrow> bytes \<Rightarrow> bytes \<Rightarrow> error + bytes" where
  "V2Local_encrypt P ent self payload footer implicit_assertion nonce =
     (case V2Local_generate_nonce P ent nonce payload of
        Inl e \<Rightarrow> Inl e
      | Inr n \<Rightarrow>
          (case aead_encrypt P (k_key self) n (pae [k_header self, n, footer]) payload of
             None \<Rightarrow> Inl (EncryptError ''Failed to encrypt.'')
           | Some (c, tag) \<Rightarrow>
               Inr (if footer \<noteq> []
                    then k_header self @ base64url_encode P (n @ c @ tag)
                           @ ''.'' @ base64url_encode P footer
                    else k_header self @ base64url_encode P (n @ c @ tag))))"

definition V2Local_decrypt ::
  "primitives \<Rightarrow> V2Local \<Rightarrow> bytes \<Rightarrow> bytes \<Rightarrow> bytes \<Rightarrow> error + bytes" where
  "V2Local_decrypt P self payload footer implicit_assertion =
     (let n = slice payload 0 24;
          c = slice payload 24 (int (length payload) - 16);
          tag = slice_from payload (- 16)
      in case aead_decrypt P (k_key self) n (pae [k_header self, n, footer]) c tag of
           None \<Rightarrow> Inl (DecryptError ''Failed to decrypt.'')
         | Some m \<Rightarrow> Inr m)"

definition V2Local_to_paserk_id :: "primitives \<Rightarrow> V2Local \<Rightarrow> error + string" where
  "V2Local_to_paserk_id P self =
     (let h = ''k2.lid.''; p = LocalKey_to_paserk P self in
      case blake2b P [] 33 (h @ p) of
        None \<Rightarrow> Inl LibraryError
      | Some d \<Rightarrow> Inr (h @ base64url_encode P d))"

subsection \<open>V2Public\<close>

text \<open>What \<open>Key.new\<close> can be handed as the key of a public-mode key: an Ed25519 public
  key object, an Ed25519 private key object (each identified by its raw bytes), or
  anything else.\<close>

datatype key_object = Ed25519PublicKey bytes | Ed25519PrivateKey bytes | OtherObject

record V2Public = "key_object KeyInterface" +
  k_sig_size :: nat

definition V2Public_init :: "key_object \<Rightarrow> error + V2Public" where
  "V2Public_init key =
     (let self = KeyInterface.extend (KeyInterface_init 2 ''public'' key)
                   (V2Public.fields 64)
      in case k_key self of
           OtherObject \<Rightarrow> Inl (ValueError ''The key is not Ed25519 key.'')
         | _ \<Rightarrow> Inr self)"

definition V2Public_from_paserk :: "primitives \<Rightarrow> string \<Rightarrow> error + V2Public" where
  "V2Public_from_paserk P paserk =
     (let frags = split (CHR ''.'') paserk in
      case getitem frags 0 of
        Inl e \<Rightarrow> Inl e
      | Inr f0 \<Rightarrow>
          if f0 \<noteq> ''k2'' then Inl (ValueError ''Invalid PASERK version for a v2.public key.'')
          else (case getitem frags 1 of
            Inl e \<Rightarrow> Inl e
          | Inr f1 \<Rightarrow>
              if f1 = ''public'' then
                (case getitem frags 2 of
                   Inl e \<Rightarrow> Inl e
                 | Inr f2 \<Rightarrow>
                     (case base64url_decode P f2 of
                        None \<Rightarrow> Inl LibraryError
                      | Some raw \<Rightarrow>
                          if valid_public_bytes P raw then V2Public_init (Ed25519PublicKey raw)
                          else Inl LibraryError))
              else if f1 = ''secret'' then
                (case getitem frags 2 of
                   Inl e \<Rightarrow> Inl e
                 | Inr f2 \<Rightarrow>
                     (case base64url_decode P f2 of
                        None \<Rightarrow> Inl LibraryError
                      | Some raw \<Rightarrow>
                          if valid_private_bytes P raw then V2Public_init (Ed25519PrivateKey raw)
                          else Inl LibraryError))
              else Inl (ValueError ''Invalid PASERK type for a v2.public key.'')))"

definition V2Public_sign ::
  "primitives \<Rightarrow> V2Public \<Rightarrow> bytes \<Rightarrow> bytes \<Rightarrow> bytes \<Rightarrow> error + bytes" where
  "V2Public_sign P self payload footer implicit_assertion =
     (case k_key self of
        Ed25519PublicKey pk \<Rightarrow> Inl (ValueError ''A public key cannot be used for signing.'')
      | Ed25519PrivateKey sk \<Rightarrow>
          (case ed25519_sign P sk (pae [k_header self, payload, footer]) of
             None \<Rightarrow> Inl (SignError ''Failed to sign.'')
           | Some sig \<Rightarrow> Inr sig)
      | OtherObject \<Rightarrow> Inl (SignError ''Failed to sign.''))"

definition V2Public_verify ::
  "primitives \<Rightarrow> V2Public \<Rightarrow> bytes \<Rightarrow> bytes \<Rightarrow> bytes \<Rightarrow> error + bytes" where
  "V2Public_verify P self payload footer implicit_assertion =
     (if length payload \<le> k_sig_size self then Inl (ValueError ''Invalid payload.'')
      else
        (let sig = slice_from payload (- int (k_sig_size self));
             m = slice_to payload (int (length payload) - int (k_sig_size self))
         in case k_key self of
              Ed25519PublicKey pk \<Rightarrow>
                if ed25519_verify P pk sig (pae [k_header self, m, footer]) then Inr m
                else Inl (VerifyError ''Failed to verify.'')
            | Ed25519PrivateKey sk \<Rightarrow>
                if ed25519_verify P (ed25519_public_key P sk) sig (pae [k_header self, m, footer])
                then Inr m
                else Inl (VerifyError ''Failed to verify.'')
            | OtherObject \<Rightarrow> Inl LibraryError))"

definition V2Public_to_paserk :: "primitives \<Rightarrow> V2Public \<Rightarrow> error + string" where
  "V2Public_to_paserk P self =
     (case k_key self of
        Ed25519PublicKey pk \<Rightarrow> Inr (''k2.public.'' @ base64url_encode P pk)
      | Ed25519PrivateKey sk \<Rightarrow> Inr (''k2.secret.'' @ base64url_encode P sk)
      | OtherObject \<Rightarrow> Inl LibraryError)"

definition V2Public_to_paserk_id :: "primitives \<Rightarrow> V2Public \<Rightarrow> error + string" where
  "V2Public_to_paserk_id P self =
     (case V2Public_to_paserk P self of
        Inl e \<Rightarrow> Inl e
      | Inr p \<Rightarrow>
          (let h = (case k_key self of Ed25519PublicKey pk \<Rightarrow> ''k2.pid.'' | _ \<Rightarrow> ''k2.sid.'') in
           case blake2b P [] 33 (h @ p) of
             None \<Rightarrow> Inl LibraryError
           | Some d \<Rightarrow> Inr (h @ base64url_encode P d)))"

subsection \<open>V4Local\<close>

text \<open>Modelled from the spec: \<open>V4Local._generate_nonce\<close> is missing with the rest of
  versions/v4.py. Section 8 of the spec and the tests give its seed check: a non-empty
  seed whose length is not 32 raises ValueError "nonce must be 32 bytes long.". What the
  adapter derives from an accepted seed, or from 32 fresh random bytes, is not modelled:
  it is the argument \<open>derive\<close>.\<close>

definition V4Local_generate_nonce ::
  "(bytes \<Rightarrow> bytes \<Rightarrow> error + bytes) \<Rightarrow> entropy \<Rightarrow> bytes \<Rightarrow> bytes \<Rightarrow> error + bytes" where
  "V4Local_generate_nonce derive ent key msg =
     (if key \<noteq> [] \<and> length key \<noteq> 32 then Inl (ValueError ''nonce must be 32 bytes long.'')
      else derive (if key \<noteq> [] then key else token_bytes ent 32) msg)"

subsection \<open>The tests of v4 local keys (tests/test_v4.py)\<close>

text \<open>
  \<open>versions/v4.py\<close> is not among the sources, its tests are. The test
  \<open>test_v4_local_decrypt_via_decode_with_wrong_key\<close> is translated as it is written, over
  the three functions it calls: \<open>new\<close> is \<open>Key.new("v4", "local", _)\<close>, \<open>encode\<close> is
  \<open>pyseto.encode(key, payload)\<close> and \<open>decode\<close> is \<open>pyseto.decode(key, token)\<close>. An exception
  of \<open>Key.new\<close> or \<open>encode\<close> fails the test; inside \<open>pytest.raises(DecryptError)\<close>, a
  \<open>decode\<close> that returns reaches \<open>pytest.fail\<close>, an exception of another class is not caught,
  and a DecryptError must carry "Failed to decrypt." in its message.
\<close>

datatype outcome = Passed | Failed




subsection \<open>What the adapter expects of its collaborators\<close>

text \<open>The keyed hash with a 24-byte key and \<open>digest_size = 24\<close> returns 24 bytes.\<close>

definition blake2b_contract :: "primitives \<Rightarrow> bool" where
  "blake2b_contract P \<longleftrightarrow>
     (\<forall>key msg. length key = 24 \<longrightarrow> (\<exists>d. blake2b P key 24 msg = Some d \<and> length d = 24))"

text \<open>With a 32-byte key and a 24-byte nonce the AEAD seals every plaintext, its tag has
  16 bytes, and opening what it sealed, under the same key, nonce and associated data,
  gives the plaintext back.\<close>

definition aead_contract :: "primitives \<Rightarrow> bool" where
  "aead_contract P \<longleftrightarrow>
     (\<forall>k n a m. length k = 32 \<and> length n = 24 \<longrightarrow>
        (\<exists>c t. aead_encrypt P k n a m = Some (c, t) \<and> length t = 16
               \<and> aead_decrypt P k n a c t = Some m))"

text \<open>The base64url codec decodes what it encoded, and its output has no dot.\<close>

definition base64url_contract :: "primitives \<Rightarrow> bool" where
  "base64url_contract P \<longleftrightarrow>
     (\<forall>x. base64url_decode P (base64url_encode P x) = Some x
          \<and> CHR ''.'' \<notin> set (base64url_encode P x))"

text \<open>A private key that the parser accepts signs every message, its signature has 64
  bytes, and the public key derived from it verifies that signature over that message.\<close>

definition ed25519_contract :: "primitives \<Rightarrow> bool" where
  "ed25519_contract P \<longleftrightarrow>
     (\<forall>sk m. valid_private_bytes P sk \<longrightarrow>
        (\<exists>sig. ed25519_sign P sk m = Some sig \<and> length sig = 64
               \<and> ed25519_verify P (ed25519_public_key P sk) sig m))"

subsection \<open>A reference instance of the collaborators\<close>

text \<open>
  None of the following is cryptography. They are small executable functions with the
  interface of the collaborators, on which the adapter can be evaluated and which meet
  the contracts above: a digest that truncates or pads, a cipher that reverses
  the plaintext and tags it with bytes of key, nonce and ciphertext, a signature that
  truncates or pads, and a codec that escapes the dot.
\<close>

definition ref_blake2b :: "bytes \<Rightarrow> nat \<Rightarrow> bytes \<Rightarrow> bytes option" where
  "ref_blake2b key ds msg =
     (if length key \<le> 64 \<and> 1 \<le> ds \<and> ds \<le> 64
      then Some (take ds (rev msg @ key @ replicate ds (CHR 0x00)))
      else None)"

definition ref_tag :: "bytes \<Rightarrow> bytes \<Rightarrow> bytes \<Rightarrow> bytes \<Rightarrow> bytes" where
  "ref_tag k n a c =
     take 4 (k @ replicate 4 (CHR 0x00)) @ take 4 (n @ replicate 4 (CHR 0x00))
       @ take 8 (c @ rev a @ replicate 8 (CHR 0x00))"

definition ref_aead_encrypt :: "bytes \<Rightarrow> bytes \<Rightarrow> bytes \<Rightarrow> bytes \<Rightarrow> (bytes \<times> bytes) option" where
  "ref_aead_encrypt k n a m =
     (if length k = 32 \<and> length n = 24 then Some (rev m, ref_tag k n a (rev m)) else None)"

definition ref_aead_decrypt :: "bytes \<Rightarrow> bytes \<Rightarrow> bytes \<Rightarrow> bytes \<Rightarrow> bytes \<Rightarrow> bytes option" where
  "ref_aead_decrypt k n a c t =
     (if length k = 32 \<and> length n = 24 \<and> t = ref_tag k n a c then Some (rev c) else None)"

definition ref_public_key :: "bytes \<Rightarrow> bytes" where
  "ref_public_key sk = rev sk"

definition ref_signature :: "bytes \<Rightarrow> bytes \<Rightarrow> bytes" where
  "ref_signature pk msg = take 64 (pk @ rev msg @ replicate 64 (CHR 0x00))"

definition ref_sign :: "bytes \<Rightarrow> bytes \<Rightarrow> bytes option" where
  "ref_sign sk msg = (if length sk = 32 then Some (ref_signature (ref_public_key sk) msg) else None)"

definition ref_verify :: "bytes \<Rightarrow> bytes \<Rightarrow> bytes \<Rightarrow> bool" where
  "ref_verify pk sig msg \<longleftrightarrow> sig = ref_signature pk msg"

fun ref_encode :: "bytes \<Rightarrow> bytes" where
  "ref_encode [] = []"
| "ref_encode (c # cs) =
     (if c = CHR ''.'' then CHR ''_'' # CHR ''d'' # ref_encode cs
      else if c = CHR ''_'' then CHR ''_'' # CHR ''_'' # ref_encode cs
      else c # ref_encode cs)"

fun ref_decode :: "bytes \<Rightarrow> bytes option" where
  "ref_decode [] = Some []"
| "ref_decode [c] = (if c = CHR ''_'' \<or> c = CHR ''.'' then None else Some [c])"
| "ref_decode (c # d # cs) =
     (if c = CHR ''_'' then
        (if d = CHR ''d'' then map_option ((#) (CHR ''.'')) (ref_decode cs)
         else if d = CHR ''_'' then map_option ((#) (CHR ''_'')) (ref_decode cs)
         else None)
      else if c = CHR ''.'' then None
      else map_option ((#) c) (ref_decode (d # cs)))"

definition ref :: primitives where
  "ref = \<lparr>aead_encrypt = ref_aead_encrypt, aead_decrypt = ref_aead_decrypt,
          blake2b = ref_blake2b, ed25519_sign = ref_sign, ed25519_verify = ref_verify,
          ed25519_public_key = ref_public_key,
          valid_public_bytes = (\<lambda>b. length b = 32),
          valid_private_bytes = (\<lambda>b. length b = 32),
          base64url_encode = ref_encode, base64url_decode = ref_decode\<rparr>"

text \<open>Inputs of the examples: an entropy source that returns the byte \<open>r\<close>, the local
  key of 32 bytes \<open>k\<close>, the raw bytes of an Ed25519 key, the private and the public key
  object that hold them, and 41 bytes that no one encrypted.\<close>

definition ent0 :: entropy where
  "ent0 = (\<lambda>i. CHR ''r'')"

definition key0 :: bytes where
  "key0 = replicate 32 (CHR ''k'')"

definition local0 :: V2Local where
  "local0 = \<lparr>k_version = 2, k_purpose = ''local'', k_header = ''v2.local.'', k_key = key0\<rparr>"

definition raw0 :: bytes where
  "raw0 = replicate 32 (CHR ''s'')"

definition secret0 :: V2Public where
  "secret0 = \<lparr>k_version = 2, k_purpose = ''public'', k_header = ''v2.public.'',
               k_key = Ed25519PrivateKey raw0, k_sig_size = 64\<rparr>"

definition public0 :: V2Public where
  "public0 = \<lparr>k_version = 2, k_purpose = ''public'', k_header = ''v2.public.'',
               k_key = Ed25519PublicKey raw0, k_sig_size = 64\<rparr>"

definition garbage0 :: bytes where
  "garbage0 = replicate 41 (CHR ''x'')"

section \<open>Properties\<close>

subsection \<open>Auxiliary facts\<close>

lemma V2Local_init_Inr:
  "V2Local_init key = Inr self \<longleftrightarrow>
     length key = 32 \<and> self = \<lparr>k_version = 2, k_purpose = ''local'', k_header = ''v2.local.'', k_key = key\<rparr>"
  by (auto simp: V2Local_init_def LocalKey_init_def KeyInterface_init_def version_str_def)

lemma V2Local_init_key0: "V2Local_init key0 = Inr local0"
  by (simp add: V2Local_init_Inr key0_def local0_def)

lemma V2Public_init_Inr:
  "V2Public_init key = Inr self \<longleftrightarrow>
     key \<noteq> OtherObject
     \<and> self = \<lparr>k_version = 2, k_purpose = ''public'', k_header = ''v2.public.'', k_key = key,
               k_sig_size = 64\<rparr>"
  by (cases key)
    (auto simp: V2Public_init_def KeyInterface_init_def version_str_def
      KeyInterface.extend_def V2Public.fields_def)

lemma V2Public_init_secret0: "V2Public_init (Ed25519PrivateKey raw0) = Inr secret0"
  by (simp add: V2Public_init_Inr secret0_def)

lemma V2Public_init_public0: "V2Public_init (Ed25519PublicKey raw0) = Inr public0"
  by (simp add: V2Public_init_Inr public0_def)

lemma length_raw0: "length raw0 = 32"
  by (simp add: raw0_def)

lemma valid_bytes_raw0: "valid_public_bytes ref raw0 \<and> valid_private_bytes ref raw0"
  by (simp add: ref_def length_raw0)

lemma length_key0: "length key0 = 32"
  by (simp add: key0_def)

lemma length_garbage0: "length garbage0 = 41"
  by (simp add: garbage0_def)

lemma blake2b_contract_ref: "blake2b_contract ref"
  by (auto simp: blake2b_contract_def ref_def ref_blake2b_def)

lemma length_ref_tag: "length (ref_tag k n a c) = 16"
  by (simp add: ref_tag_def)

lemma aead_contract_ref: "aead_contract ref"
  by (simp add: aead_contract_def ref_def ref_aead_encrypt_def ref_aead_decrypt_def length_ref_tag)

lemma ref_decode_plain:
  "c \<noteq> CHR ''_'' \<Longrightarrow> c \<noteq> CHR ''.'' \<Longrightarrow> ref_decode (c # t) = map_option ((#) c) (ref_decode t)"
  by (cases t) simp_all

lemma ref_decode_encode: "ref_decode (ref_encode x) = Some x"
  by (induction x) (simp_all add: ref_decode_plain)

lemma ref_encode_no_dot: "CHR ''.'' \<notin> set (ref_encode x)"
  by (induction x) simp_all

lemma base64url_contract_ref: "base64url_contract ref"
  by (simp add: base64url_contract_def ref_def ref_decode_encode ref_encode_no_dot)

lemma split_no_sep: "sep \<notin> set xs \<Longrightarrow> split sep xs = [xs]"
  by (induction xs) auto

lemma slice_take: "slice xs 0 (int n) = take n xs"
  by (simp add: slice_def clamp_index_def min_def)

lemma slice_middle: "slice xs 24 (int (length xs) - 16) = take (length xs - 40) (drop 24 xs)"
proof -
  have start: "clamp_index (length xs) 24 = min 24 (length xs)"
    by (simp add: clamp_index_def)
  have stop: "clamp_index (length xs) (int (length xs) - 16) - min 24 (length xs) = length xs - 40"
    by (simp add: clamp_index_def min_def) arith
  show ?thesis
  proof (cases "24 \<le> length xs")
    case True
    with stop show ?thesis by (simp add: slice_def start)
  next
    case False
    then show ?thesis by (simp add: slice_def start)
  qed
qed

lemma slice_from_neg: "0 < n \<Longrightarrow> slice_from xs (- int n) = drop (length xs - n) xs"
  by (auto simp: slice_from_def clamp_index_def nat_diff_distrib')

lemma slice_to_len:
  "n \<le> length xs \<Longrightarrow> slice_to xs (int (length xs) - int n) = take (length xs - n) xs"
  by (auto simp: slice_to_def clamp_index_def min_def nat_diff_distrib')

subsection \<open>Nonce-seed length\<close>

text \<open>
  C5. A caller-supplied non-empty nonce seed whose length is not the fixed one (24 bytes
  for v2, 32 bytes for v4) makes encrypt fail with ValueError, the adapter's validation
  error, whatever the collaborators are: the result is the same under any two records of
  collaborators and any two entropy sources (for v4, under any \<open>derive\<close>), so no
  cryptographic primitive and no random draw takes part in it. A non-empty seed of
  the required length passes the check: for v2 it becomes the key of the hash, and
  encrypt does not end in a ValueError; for v4 it is handed on to the derivation.
\<close>

theorem nonce_seed_length_enforced:
  assumes "nonce \<noteq> []"
  shows "(length nonce \<noteq> 24 \<longrightarrow>
            V2Local_generate_nonce P ent nonce payload = Inl (ValueError ''nonce must be 24 bytes long.'')
          \<and> V2Local_encrypt P ent self payload footer ia nonce
              = Inl (ValueError ''nonce must be 24 bytes long.'')
          \<and> V2Local_encrypt P' ent' self payload footer ia nonce
              = V2Local_encrypt P ent self payload footer ia nonce)
       \<and> (length nonce = 24 \<longrightarrow>
            V2Local_generate_nonce P ent nonce payload
              = (case blake2b P nonce 24 payload of
                   None \<Rightarrow> Inl (EncryptError ''Failed to generate internal nonce.'')
                 | Some d \<Rightarrow> Inr d)
          \<and> (\<forall>msg. V2Local_encrypt P ent self payload footer ia nonce \<noteq> Inl (ValueError msg)))
       \<and> (length nonce \<noteq> 32 \<longrightarrow>
            V4Local_generate_nonce derive ent nonce payload
              = Inl (ValueError ''nonce must be 32 bytes long.''))
       \<and> (length nonce = 32 \<longrightarrow>
            V4Local_generate_nonce derive ent nonce payload = derive nonce payload)"
  using assms
  by (auto simp: V2Local_generate_nonce_def V2Local_encrypt_def V4Local_generate_nonce_def
      split: option.splits sum.splits prod.splits)

theorem nonce_seed_length_enforced_witness:
  "V2Local_encrypt ref ent0 local0 ''Hello world!'' [] [] ''abc''
     = Inl (ValueError ''nonce must be 24 bytes long.'')
   \<and> V4Local_generate_nonce (\<lambda>k m. Inr k) ent0 ''abc'' ''Hello world!''
     = Inl (ValueError ''nonce must be 32 bytes long.'')
   \<and> V2Local_generate_nonce ref ent0 (replicate 24 (CHR ''s'')) ''Hello world!''
     = (case blake2b ref (replicate 24 (CHR ''s'')) 24 ''Hello world!'' of
          None \<Rightarrow> Inl (EncryptError ''Failed to generate internal nonce.'')
        | Some d \<Rightarrow> Inr d)
   \<and> V4Local_generate_nonce (\<lambda>k m. Inr k) ent0 (replicate 32 (CHR ''s'')) ''Hello world!''
     = Inr (replicate 32 (CHR ''s''))"
  using nonce_seed_length_enforced [where nonce = "''abc''" and P = ref and ent = ent0
      and payload = "''Hello world!''" and self = local0 and footer = "[]" and ia = "[]"
      and derive = "\<lambda>k m. Inr k"]
    nonce_seed_length_enforced [where nonce = "replicate 24 (CHR ''s'')" and P = ref and ent = ent0
      and payload = "''Hello world!''" and self = local0 and footer = "[]" and ia = "[]"
      and derive = "\<lambda>k m. Inr k"]
    nonce_seed_length_enforced [where nonce = "replicate 32 (CHR ''s'')" and P = ref and ent = ent0
      and payload = "''Hello world!''" and self = local0 and footer = "[]" and ia = "[]"
      and derive = "\<lambda>k m. Inr k"]
  by simp

subsection \<open>The implicit assertion\<close>

text \<open>
  C10. The four v2 operations accept \<open>implicit_assertion\<close> and ignore it: with every
  other argument fixed (the entropy included), two values of it give the same result,
  error or not. The PAE input is the three-element list of header, nonce or message,
  and footer.
\<close>

theorem implicit_assertion_ignored:
  "V2Local_encrypt P ent l payload footer a nonce = V2Local_encrypt P ent l payload footer a' nonce
   \<and> V2Local_decrypt P l payload footer a = V2Local_decrypt P l payload footer a'
   \<and> V2Public_sign P p payload footer a = V2Public_sign P p payload footer a'
   \<and> V2Public_verify P p payload footer a = V2Public_verify P p payload footer a'"
  by (simp add: V2Local_encrypt_def V2Local_decrypt_def V2Public_sign_def V2Public_verify_def)

subsection \<open>Decryption\<close>

text \<open>
  C2. \<open>V2Local.decrypt\<close> cuts its payload at fixed offsets: the nonce is the first 24
  bytes, the tag the last 16 bytes and the ciphertext what lies between (for a payload
  of at least 40 bytes the three pieces are the payload again). It recomputes
  \<open>pae([header, nonce, footer])\<close> and hands everything to the one verify-and-open call
  of the AEAD: a plaintext is returned only when that call returned it, and every
  failure, whatever its cause, is the same error value, DecryptError "Failed to decrypt.".
\<close>

theorem decrypt_fixed_offsets_single_error:
  "V2Local_decrypt P self payload footer ia =
     (case aead_decrypt P (k_key self) (take 24 payload)
             (pae [k_header self, take 24 payload, footer])
             (take (length payload - 40) (drop 24 payload))
             (drop (length payload - 16) payload) of
        None \<Rightarrow> Inl (DecryptError ''Failed to decrypt.'')
      | Some m \<Rightarrow> Inr m)
   \<and> (40 \<le> length payload \<longrightarrow>
        take 24 payload @ take (length payload - 40) (drop 24 payload)
          @ drop (length payload - 16) payload = payload)
   \<and> (V2Local_decrypt P self payload footer ia = Inl e \<longrightarrow>
          e = DecryptError ''Failed to decrypt.'')
   \<and> (V2Local_decrypt P self payload footer ia = Inr plain \<longrightarrow>
          aead_decrypt P (k_key self) (take 24 payload)
            (pae [k_header self, take 24 payload, footer])
            (take (length payload - 40) (drop 24 payload))
            (drop (length payload - 16) payload) = Some plain)"
proof -
  have n: "slice payload 0 24 = take 24 payload"
    using slice_take [of payload 24] by simp
  have t: "slice_from payload (- 16) = drop (length payload - 16) payload"
    using slice_from_neg [of 16 payload] by simp
  have eq: "V2Local_decrypt P self payload footer ia =
     (case aead_decrypt P (k_key self) (take 24 payload)
             (pae [k_header self, take 24 payload, footer])
             (take (length payload - 40) (drop 24 payload))
             (drop (length payload - 16) payload) of
        None \<Rightarrow> Inl (DecryptError ''Failed to decrypt.'')
      | Some m \<Rightarrow> Inr m)"
    by (simp add: V2Local_decrypt_def Let_def n t slice_middle)
  have parts: "take 24 payload @ take (length payload - 40) (drop 24 payload)
          @ drop (length payload - 16) payload = payload" if "40 \<le> length payload"
  proof -
    have "length payload - 40 + 24 = length payload - 16"
      using that by arith
    then have "drop (length payload - 16) payload = drop (length payload - 40) (drop 24 payload)"
      by (simp only: drop_drop)
    then have "take (length payload - 40) (drop 24 payload) @ drop (length payload - 16) payload
            = drop 24 payload"
      by (simp only: append_take_drop_id)
    then show ?thesis by (simp only: append_take_drop_id)
  qed
  have err: "e = DecryptError ''Failed to decrypt.''"
    if "V2Local_decrypt P self payload footer ia = Inl e"
    using that unfolding eq by (simp split: option.splits)
  have ok: "aead_decrypt P (k_key self) (take 24 payload)
            (pae [k_header self, take 24 payload, footer])
            (take (length payload - 40) (drop 24 payload))
            (drop (length payload - 16) payload) = Some plain"
    if "V2Local_decrypt P self payload footer ia = Inr plain"
    using that unfolding eq by (simp split: option.splits)
  from eq parts err ok show ?thesis by blast
qed

lemma hd_ref_tag: "k \<noteq> [] \<Longrightarrow> hd (ref_tag k n a c) = hd k"
  by (cases k) (simp_all add: ref_tag_def)

lemma hd_key0: "hd key0 = CHR ''k'' \<and> key0 \<noteq> []"
  by (simp add: key0_def)

lemma tail_garbage0: "hd (drop (length garbage0 - 16) garbage0) = CHR ''x''"
  by (simp add: garbage0_def)

lemma garbage0_tag: "ref_tag key0 n a c \<noteq> drop (length garbage0 - 16) garbage0"
proof
  assume "ref_tag key0 n a c = drop (length garbage0 - 16) garbage0"
  then have "hd (ref_tag key0 n a c) = hd (drop (length garbage0 - 16) garbage0)"
    by (rule arg_cong)
  then show False
    by (simp only: hd_ref_tag [OF conjunct2 [OF hd_key0]] conjunct1 [OF hd_key0] tail_garbage0) simp
qed

lemma garbage0_rejected:
  "aead_decrypt ref (k_key local0) n a c (drop (length garbage0 - 16) garbage0) = None"
  using garbage0_tag [of n a c]
  by (simp add: ref_def ref_aead_decrypt_def local0_def)

theorem decrypt_fixed_offsets_single_error_witness:
  "40 \<le> length garbage0
   \<and> take 24 garbage0 @ take (length garbage0 - 40) (drop 24 garbage0)
       @ drop (length garbage0 - 16) garbage0 = garbage0
   \<and> V2Local_decrypt ref local0 garbage0 [] [] = Inl (DecryptError ''Failed to decrypt.'')"
proof -
  note T = decrypt_fixed_offsets_single_error
    [of ref local0 garbage0 "[]" "[]" "DecryptError ''Failed to decrypt.''" "[]"]
  have len: "40 \<le> length garbage0"
    by (simp add: length_garbage0)
  have "V2Local_decrypt ref local0 garbage0 [] [] = Inl (DecryptError ''Failed to decrypt.'')"
    by (simp only: conjunct1 [OF T] garbage0_rejected option.case)
  with len T show ?thesis by blast
qed

subsection \<open>Signing and verifying\<close>

lemma length_ref_signature: "length (ref_signature pk msg) = 64"
  by (simp add: ref_signature_def)

lemma ref_sign_raw0:
  "ed25519_sign ref raw0 msg = Some (ref_signature (ref_public_key raw0) msg)"
  by (simp add: ref_def ref_sign_def length_raw0)

text \<open>
  C3 (as the code has it). For a v2 public-mode key that holds a private key, \<open>sign\<close>
  returns the signature alone: \<open>Sign(private_key, pae([header, payload, footer]))\<close>, or
  SignError when the signing primitive fails. The payload is not part of what \<open>sign\<close>
  returns. With a public-only key \<open>sign\<close> raises ValueError. Whatever \<open>sign\<close> returns is
  a signature of the held private key over that PAE.
\<close>

theorem sign_returns_signature_only:
  assumes "V2Public_init key = Inr self"
  shows "(key = Ed25519PrivateKey sk
            \<and> ed25519_sign P sk (pae [''v2.public.'', payload, footer]) = Some sig
            \<longrightarrow> V2Public_sign P self payload footer ia = Inr sig)
       \<and> (key = Ed25519PrivateKey sk
            \<and> ed25519_sign P sk (pae [''v2.public.'', payload, footer]) = None
            \<longrightarrow> V2Public_sign P self payload footer ia = Inl (SignError ''Failed to sign.''))
       \<and> (key = Ed25519PublicKey pk
            \<longrightarrow> V2Public_sign P self payload footer ia
                 = Inl (ValueError ''A public key cannot be used for signing.''))
       \<and> (V2Public_sign P self payload footer ia = Inr out
            \<longrightarrow> (\<exists>sk'. key = Ed25519PrivateKey sk'
                  \<and> ed25519_sign P sk' (pae [''v2.public.'', payload, footer]) = Some out))"
  using assms
  by (cases key) (auto simp: V2Public_init_Inr V2Public_sign_def split: option.splits)

theorem sign_returns_signature_only_witness:
  "V2Public_sign ref secret0 ''Hello world!'' [] []
     = Inr (ref_signature (ref_public_key raw0) (pae [''v2.public.'', ''Hello world!'', []]))
   \<and> V2Public_sign ref public0 ''Hello world!'' [] []
     = Inl (ValueError ''A public key cannot be used for signing.'')"
proof -
  note S = sign_returns_signature_only [OF V2Public_init_secret0,
      of raw0 ref "''Hello world!''" "[]"
        "ref_signature (ref_public_key raw0) (pae [''v2.public.'', ''Hello world!'', []])"]
  note Q = sign_returns_signature_only [OF V2Public_init_public0, of _ ref _ _ _ _ raw0]
  have "ed25519_sign ref raw0 (pae [''v2.public.'', ''Hello world!'', []])
          = Some (ref_signature (ref_public_key raw0) (pae [''v2.public.'', ''Hello world!'', []]))"
    by (rule ref_sign_raw0)
  with S Q show ?thesis by blast
qed

text \<open>C3 as the spec words it, that the output of \<open>sign\<close> is
  \<open>payload || signature\<close>, fails: for the payload "Hello world!" the signing primitive
  returns a signature, \<open>sign\<close> returns exactly that, and not the payload followed by
  it.\<close>

theorem sign_output_counterexample:
  "ed25519_sign ref raw0 (pae [k_header secret0, ''Hello world!'', []])
     = Some (ref_signature (ref_public_key raw0) (pae [''v2.public.'', ''Hello world!'', []]))
   \<and> V2Public_sign ref secret0 ''Hello world!'' [] []
     = Inr (ref_signature (ref_public_key raw0) (pae [''v2.public.'', ''Hello world!'', []]))
   \<and> V2Public_sign ref secret0 ''Hello world!'' [] []
     \<noteq> Inr (''Hello world!''
             @ ref_signature (ref_public_key raw0) (pae [''v2.public.'', ''Hello world!'', []]))"
proof -
  let ?S = "ref_signature (ref_public_key raw0) (pae [''v2.public.'', ''Hello world!'', []])"
  have hdr: "k_header secret0 = ''v2.public.''" and key: "k_key secret0 = Ed25519PrivateKey raw0"
    by (simp_all add: secret0_def)
  have sig: "ed25519_sign ref raw0 (pae [k_header secret0, ''Hello world!'', []]) = Some ?S"
    unfolding hdr by (rule ref_sign_raw0)
  have out: "V2Public_sign ref secret0 ''Hello world!'' [] [] = Inr ?S"
    by (simp add: V2Public_sign_def key sig)
  have "length (''Hello world!'' @ ?S) \<noteq> length ?S"
    by simp
  then have "''Hello world!'' @ ?S \<noteq> ?S"
    by (rule contrapos_nn) (rule arg_cong)
  with sig out show ?thesis
    by (simp only: sum.inject) simp
qed

text \<open>
  C7. For a v2 public-mode key, \<open>verify\<close> raises ValueError when the payload has at most
  64 bytes. Otherwise the signature is the last 64 bytes and the message everything
  before them; the signature is checked over \<open>pae([header, message, footer])\<close> with the
  held public key, or with the public key derived from the held private key; a failed
  check raises VerifyError and a successful one returns the message.
\<close>

theorem verify_split_and_errors:
  assumes "V2Public_init key = Inr self"
  shows "(length payload \<le> 64 \<longrightarrow>
            V2Public_verify P self payload footer ia = Inl (ValueError ''Invalid payload.''))
       \<and> (64 < length payload \<longrightarrow>
            take (length payload - 64) payload @ drop (length payload - 64) payload = payload
          \<and> length (drop (length payload - 64) payload) = 64
          \<and> (key = Ed25519PublicKey pk \<longrightarrow>
                V2Public_verify P self payload footer ia =
                  (if ed25519_verify P pk (drop (length payload - 64) payload)
                        (pae [''v2.public.'', take (length payload - 64) payload, footer])
                   then Inr (take (length payload - 64) payload)
                   else Inl (VerifyError ''Failed to verify.'')))
          \<and> (key = Ed25519PrivateKey sk \<longrightarrow>
                V2Public_verify P self payload footer ia =
                  (if ed25519_verify P (ed25519_public_key P sk) (drop (length payload - 64) payload)
                        (pae [''v2.public.'', take (length payload - 64) payload, footer])
                   then Inr (take (length payload - 64) payload)
                   else Inl (VerifyError ''Failed to verify.''))))"
proof -
  from assms have self: "k_key self = key" "k_header self = ''v2.public.''" "k_sig_size self = 64"
    by (simp_all add: V2Public_init_Inr)
  have short: "V2Public_verify P self payload footer ia = Inl (ValueError ''Invalid payload.'')"
    if "length payload \<le> 64"
    using that by (simp add: V2Public_verify_def self)
  have long: "V2Public_verify P self payload footer ia =
      (case key of
         Ed25519PublicKey pk \<Rightarrow>
           if ed25519_verify P pk (drop (length payload - 64) payload)
                (pae [''v2.public.'', take (length payload - 64) payload, footer])
           then Inr (take (length payload - 64) payload)
           else Inl (VerifyError ''Failed to verify.'')
       | Ed25519PrivateKey sk \<Rightarrow>
           if ed25519_verify P (ed25519_public_key P sk) (drop (length payload - 64) payload)
                (pae [''v2.public.'', take (length payload - 64) payload, footer])
           then Inr (take (length payload - 64) payload)
           else Inl (VerifyError ''Failed to verify.'')
       | OtherObject \<Rightarrow> Inl LibraryError)"
    if "64 < length payload"
  proof -
    have "slice_from payload (- int 64) = drop (length payload - 64) payload"
      by (rule slice_from_neg) simp
    moreover have "slice_to payload (int (length payload) - int 64) = take (length payload - 64) payload"
      by (rule slice_to_len) (use that in simp)
    ultimately show ?thesis
      using that by (simp add: V2Public_verify_def self Let_def split: key_object.splits)
  qed
  have len: "length (drop (length payload - 64) payload) = 64" if "64 < length payload"
    using that by simp
  show ?thesis
    using short long len by (auto split: key_object.splits)
qed

lemma hd_ref_signature_raw0: "hd (ref_signature raw0 msg) = CHR ''s''"
  by (simp add: ref_signature_def raw0_def)

lemma forged_signature: "replicate 64 (CHR ''x'') \<noteq> ref_signature raw0 msg"
proof
  assume "replicate 64 (CHR ''x'') = ref_signature raw0 msg"
  then have "hd (replicate 64 (CHR ''x'')) = hd (ref_signature raw0 msg)"
    by (rule arg_cong)
  then show False
    by (simp add: hd_ref_signature_raw0)
qed

theorem verify_split_and_errors_witness:
  "V2Public_verify ref public0 ''short'' [] [] = Inl (ValueError ''Invalid payload.'')
   \<and> V2Public_verify ref public0
         (''Hello'' @ ref_signature raw0 (pae [''v2.public.'', ''Hello'', []])) [] []
       = Inr ''Hello''
   \<and> V2Public_verify ref secret0
         (''Hello'' @ ref_signature (ref_public_key raw0) (pae [''v2.public.'', ''Hello'', []])) [] []
       = Inr ''Hello''
   \<and> V2Public_verify ref public0 (''Hello'' @ replicate 64 (CHR ''x'')) [] []
       = Inl (VerifyError ''Failed to verify.'')"
proof -
  have short: "V2Public_verify ref public0 ''short'' [] [] = Inl (ValueError ''Invalid payload.'')"
    using verify_split_and_errors [OF V2Public_init_public0, where payload = "''short''"]
    by simp
  have good: "V2Public_verify ref self (''Hello'' @ ref_signature pub (pae [''v2.public.'', ''Hello'', []])) [] []
       = Inr ''Hello''"
    if T: "64 < length (''Hello'' @ ref_signature pub (pae [''v2.public.'', ''Hello'', []])) \<longrightarrow>
       V2Public_verify ref self (''Hello'' @ ref_signature pub (pae [''v2.public.'', ''Hello'', []])) [] [] =
         (if ed25519_verify ref pub
               (drop (length (''Hello'' @ ref_signature pub (pae [''v2.public.'', ''Hello'', []])) - 64)
                  (''Hello'' @ ref_signature pub (pae [''v2.public.'', ''Hello'', []])))
               (pae [''v2.public.'',
                  take (length (''Hello'' @ ref_signature pub (pae [''v2.public.'', ''Hello'', []])) - 64)
                    (''Hello'' @ ref_signature pub (pae [''v2.public.'', ''Hello'', []])), []])
          then Inr (take (length (''Hello'' @ ref_signature pub (pae [''v2.public.'', ''Hello'', []])) - 64)
                    (''Hello'' @ ref_signature pub (pae [''v2.public.'', ''Hello'', []])))
          else Inl (VerifyError ''Failed to verify.''))"
    for self pub
    using T by (simp add: length_ref_signature ref_def ref_verify_def)
  have pub: "V2Public_verify ref public0
         (''Hello'' @ ref_signature raw0 (pae [''v2.public.'', ''Hello'', []])) [] [] = Inr ''Hello''"
    using verify_split_and_errors [OF V2Public_init_public0, where P = ref and pk = raw0
        and payload = "''Hello'' @ ref_signature raw0 (pae [''v2.public.'', ''Hello'', []])"
        and footer = "[]" and ia = "[]"]
    by (intro good) blast
  have sec: "V2Public_verify ref secret0
         (''Hello'' @ ref_signature (ref_public_key raw0) (pae [''v2.public.'', ''Hello'', []])) [] []
       = Inr ''Hello''"
    using verify_split_and_errors [OF V2Public_init_secret0, where P = ref and sk = raw0
        and payload = "''Hello'' @ ref_signature (ref_public_key raw0) (pae [''v2.public.'', ''Hello'', []])"
        and footer = "[]" and ia = "[]"]
    by (intro good) (simp add: ref_def)
  have bad: "V2Public_verify ref public0 (''Hello'' @ replicate 64 (CHR ''x'')) [] []
       = Inl (VerifyError ''Failed to verify.'')"
    using verify_split_and_errors [OF V2Public_init_public0, where P = ref and pk = raw0
        and payload = "''Hello'' @ replicate 64 (CHR ''x'')" and footer = "[]" and ia = "[]"]
      forged_signature
    by (simp add: ref_def ref_verify_def)
  from short pub sec bad show ?thesis by blast
qed

subsection \<open>Encryption and the round trip\<close>

lemma length_token_bytes: "length (token_bytes ent n) = n"
  by (simp add: token_bytes_def)

lemma decrypt_of_parts:
  assumes "length n = 24" and "length tag = 16"
  shows "V2Local_decrypt P self (n @ c @ tag) footer ia =
     (case aead_decrypt P (k_key self) n (pae [k_header self, n, footer]) c tag of
        None \<Rightarrow> Inl (DecryptError ''Failed to decrypt.'')
      | Some m \<Rightarrow> Inr m)"
proof -
  have n: "slice (n @ c @ tag) 0 24 = n"
    using slice_take [of "n @ c @ tag" 24] assms by simp
  have c: "slice (n @ c @ tag) 24 (int (length (n @ c @ tag)) - 16) = c"
    using assms by (simp only: slice_middle) simp
  have t: "slice_from (n @ c @ tag) (- 16) = tag"
    using slice_from_neg [of 16 "n @ c @ tag"] assms by simp
  show ?thesis
    by (simp only: V2Local_decrypt_def Let_def n c t)
qed

text \<open>
  C6. The nonce of \<open>V2Local.encrypt\<close> is the keyed hash \<open>blake2b(key = seed,
  digest_size = 24)\<close> of the payload, where the seed is the caller's 24-byte nonce seed or,
  when that is empty, 24 fresh random bytes. It has 24 bytes. The AEAD is keyed with the
  key of the key object, which no call randomises. The nonce is a function of seed and
  payload alone: two calls with the same seed and payload derive the same nonce, whatever
  the entropy, the key and the footer.
\<close>

theorem nonce_is_keyed_hash_of_payload:
  assumes "blake2b_contract P"
    and "nonce = [] \<or> length nonce = 24"
    and "seed = (if nonce \<noteq> [] then nonce else token_bytes ent 24)"
  shows "length seed = 24
       \<and> (\<exists>n. blake2b P seed 24 payload = Some n \<and> length n = 24
             \<and> V2Local_generate_nonce P ent nonce payload = Inr n
             \<and> V2Local_encrypt P ent self payload footer ia nonce =
                 (case aead_encrypt P (k_key self) n (pae [k_header self, n, footer]) payload of
                    None \<Rightarrow> Inl (EncryptError ''Failed to encrypt.'')
                  | Some (c, tag) \<Rightarrow>
                      Inr (if footer \<noteq> []
                           then k_header self @ base64url_encode P (n @ c @ tag)
                                  @ ''.'' @ base64url_encode P footer
                           else k_header self @ base64url_encode P (n @ c @ tag))))
       \<and> ((nonce' = [] \<or> length nonce' = 24)
            \<and> (if nonce' \<noteq> [] then nonce' else token_bytes ent' 24) = seed
            \<longrightarrow> V2Local_generate_nonce P ent' nonce' payload
                 = V2Local_generate_nonce P ent nonce payload)"
proof -
  have len: "length seed = 24"
    using assms(2,3) by (auto simp: length_token_bytes)
  then obtain n where n: "blake2b P seed 24 payload = Some n" "length n = 24"
    using assms(1) unfolding blake2b_contract_def by blast
  have gen: "V2Local_generate_nonce P e s payload = Inr n"
    if "s = [] \<or> length s = 24" and "(if s \<noteq> [] then s else token_bytes e 24) = seed" for e s
    using that n by (auto simp: V2Local_generate_nonce_def)
  have g: "V2Local_generate_nonce P ent nonce payload = Inr n"
    using assms(2,3) by (intro gen) simp_all
  have enc: "V2Local_encrypt P ent self payload footer ia nonce =
                 (case aead_encrypt P (k_key self) n (pae [k_header self, n, footer]) payload of
                    None \<Rightarrow> Inl (EncryptError ''Failed to encrypt.'')
                  | Some (c, tag) \<Rightarrow>
                      Inr (if footer \<noteq> []
                           then k_header self @ base64url_encode P (n @ c @ tag)
                                  @ ''.'' @ base64url_encode P footer
                           else k_header self @ base64url_encode P (n @ c @ tag)))"
    by (simp add: V2Local_encrypt_def g)
  have same: "V2Local_generate_nonce P ent' nonce' payload = V2Local_generate_nonce P ent nonce payload"
    if "nonce' = [] \<or> length nonce' = 24"
      and "(if nonce' \<noteq> [] then nonce' else token_bytes ent' 24) = seed"
    using gen [OF that] g by simp
  from len n g enc same show ?thesis by blast
qed

lemma token_bytes_ent0: "token_bytes ent0 n = replicate n (CHR ''r'')"
  by (simp add: token_bytes_def ent0_def map_replicate_const)

theorem nonce_is_keyed_hash_of_payload_witness:
  "\<exists>n. blake2b ref (replicate 24 (CHR ''r'')) 24 ''Hello world!'' = Some n \<and> length n = 24
      \<and> V2Local_generate_nonce ref ent0 [] ''Hello world!'' = Inr n
      \<and> V2Local_generate_nonce ref (\<lambda>i. CHR ''q'') (replicate 24 (CHR ''r'')) ''Hello world!'' = Inr n"
proof -
  have h2: "([]::bytes) = [] \<or> length ([]::bytes) = 24"
    by simp
  have h3: "replicate 24 (CHR ''r'') = (if [] \<noteq> ([]::bytes) then [] else token_bytes ent0 24)"
    by (simp only: token_bytes_ent0) simp
  have h4: "(replicate 24 (CHR ''r'') = [] \<or> length (replicate 24 (CHR ''r'')) = 24)
      \<and> (if replicate 24 (CHR ''r'') \<noteq> [] then replicate 24 (CHR ''r'')
          else token_bytes (\<lambda>i. CHR ''q'') 24) = replicate 24 (CHR ''r'')"
    by simp
  note T = nonce_is_keyed_hash_of_payload [OF blake2b_contract_ref h2 h3,
      where nonce' = "replicate 24 (CHR ''r'')" and ent' = "\<lambda>i. CHR ''q''"
        and payload = "''Hello world!''" and self = local0 and footer = "[]" and ia = "[]"]
  have G: "V2Local_generate_nonce ref (\<lambda>i. CHR ''q'') (replicate 24 (CHR ''r'')) ''Hello world!''
      = V2Local_generate_nonce ref ent0 [] ''Hello world!''"
    by (rule T [THEN conjunct2, THEN conjunct2, THEN mp, OF h4])
  show ?thesis
    using T [THEN conjunct2, THEN conjunct1] G
    by (elim exE conjE) (rule exI, intro conjI, assumption, assumption, assumption,
        erule trans, assumption)
qed

lemma local_round_trip:
  assumes "blake2b_contract P" and "aead_contract P"
    and "V2Local_init key = Inr self"
    and "nonce = [] \<or> length nonce = 24"
  shows "\<exists>n c tag. length n = 24 \<and> length tag = 16
       \<and> V2Local_encrypt P ent self payload footer ia nonce =
            Inr (if footer \<noteq> []
                 then ''v2.local.'' @ base64url_encode P (n @ c @ tag)
                        @ ''.'' @ base64url_encode P footer
                 else ''v2.local.'' @ base64url_encode P (n @ c @ tag))
       \<and> V2Local_decrypt P self (n @ c @ tag) footer ia' = Inr payload"
proof -
  from assms(3) have key: "length (k_key self) = 32" and hdr: "k_header self = ''v2.local.''"
    by (simp_all add: V2Local_init_Inr)
  define seed where "seed = (if nonce \<noteq> [] then nonce else token_bytes ent 24)"
  have "length seed = 24"
    using assms(4) by (auto simp: seed_def length_token_bytes)
  then obtain n where n: "blake2b P seed 24 payload = Some n" "length n = 24"
    using assms(1) unfolding blake2b_contract_def by blast
  have g: "V2Local_generate_nonce P ent nonce payload = Inr n"
    using assms(4) n by (auto simp: V2Local_generate_nonce_def seed_def)
  obtain c tag where
    seal: "aead_encrypt P (k_key self) n (pae [k_header self, n, footer]) payload = Some (c, tag)"
    and tag: "length tag = 16"
    and opn: "aead_decrypt P (k_key self) n (pae [k_header self, n, footer]) c tag = Some payload"
    using assms(2) key n(2) unfolding aead_contract_def by blast
  have enc: "V2Local_encrypt P ent self payload footer ia nonce =
            Inr (if footer \<noteq> []
                 then ''v2.local.'' @ base64url_encode P (n @ c @ tag)
                        @ ''.'' @ base64url_encode P footer
                 else ''v2.local.'' @ base64url_encode P (n @ c @ tag))"
    using seal by (simp add: V2Local_encrypt_def g hdr)
  have dec: "V2Local_decrypt P self (n @ c @ tag) footer ia' = Inr payload"
    by (simp add: decrypt_of_parts [OF n(2) tag] opn)
  from n(2) tag enc dec show ?thesis by blast
qed

lemma verify_of_parts:
  assumes "V2Public_init key = Inr self" and "length sig = 64" and "payload \<noteq> []"
  shows "V2Public_verify P self (payload @ sig) footer ia =
     (case key of
        Ed25519PublicKey pk \<Rightarrow>
          if ed25519_verify P pk sig (pae [''v2.public.'', payload, footer]) then Inr payload
          else Inl (VerifyError ''Failed to verify.'')
      | Ed25519PrivateKey sk \<Rightarrow>
          if ed25519_verify P (ed25519_public_key P sk) sig (pae [''v2.public.'', payload, footer])
          then Inr payload
          else Inl (VerifyError ''Failed to verify.'')
      | OtherObject \<Rightarrow> Inl LibraryError)"
proof -
  from assms(1) have self: "k_key self = key" "k_header self = ''v2.public.''" "k_sig_size self = 64"
    by (simp_all add: V2Public_init_Inr)
  have long: "\<not> length (payload @ sig) \<le> 64"
    using assms(2,3) by (cases payload) simp_all
  have sg: "slice_from (payload @ sig) (- int 64) = sig"
    using slice_from_neg [of 64 "payload @ sig"] assms(2) by simp
  have m: "slice_to (payload @ sig) (int (length (payload @ sig)) - int 64) = payload"
    using slice_to_len [of 64 "payload @ sig"] assms(2) by simp
  show ?thesis
    using long sg m by (simp add: V2Public_verify_def self Let_def split: key_object.splits)
qed

lemma public_round_trip:
  assumes "ed25519_contract P" and "valid_private_bytes P sk"
    and "V2Public_init (Ed25519PrivateKey sk) = Inr s"
    and "V2Public_init (Ed25519PublicKey (ed25519_public_key P sk)) = Inr p"
    and "payload \<noteq> []"
  shows "\<exists>sig. length sig = 64 \<and> V2Public_sign P s payload footer ia = Inr sig
           \<and> V2Public_verify P s (payload @ sig) footer ia' = Inr payload
           \<and> V2Public_verify P p (payload @ sig) footer ia' = Inr payload"
proof -
  from assms(3) have s: "k_key s = Ed25519PrivateKey sk" "k_header s = ''v2.public.''"
    by (simp_all add: V2Public_init_Inr)
  obtain sig where sig: "ed25519_sign P sk (pae [''v2.public.'', payload, footer]) = Some sig"
    and len: "length sig = 64"
    and ok: "ed25519_verify P (ed25519_public_key P sk) sig (pae [''v2.public.'', payload, footer])"
    using assms(1,2) unfolding ed25519_contract_def by blast
  have sign: "V2Public_sign P s payload footer ia = Inr sig"
    by (simp add: V2Public_sign_def s sig)
  have vs: "V2Public_verify P s (payload @ sig) footer ia' = Inr payload"
    by (simp add: verify_of_parts [OF assms(3) len assms(5)] ok)
  have vp: "V2Public_verify P p (payload @ sig) footer ia' = Inr payload"
    by (simp add: verify_of_parts [OF assms(4) len assms(5)] ok)
  from len sign vs vp show ?thesis by blast
qed

lemma ed25519_contract_ref: "ed25519_contract ref"
  by (simp add: ed25519_contract_def ref_def ref_sign_def ref_verify_def length_ref_signature)

lemma ref_public_key_raw0: "ed25519_public_key ref raw0 = raw0"
  by (simp add: ref_def ref_public_key_def raw0_def)

text \<open>The round trip on the reference instance, evaluated: the nonce, the token and
  the decryption of the token's payload bytes.\<close>

lemma nonce_example:
  "V2Local_generate_nonce ref ent0 [] ''Hello world!'' = Inr ''!dlrow olleHrrrrrrrrrrrr''"
  by (simp add: V2Local_generate_nonce_def ref_def ref_blake2b_def token_bytes_ent0
      eval_nat_numeral)

lemma encrypt_example:
  "V2Local_encrypt ref ent0 local0 ''Hello world!'' ''foot'' [] []
     = Inr ''v2.local.!dlrow olleHrrrrrrrrrrrr!dlrow olleHkkkk!dlr!dlrow o.foot''"
  using nonce_example
  by (simp add: V2Local_encrypt_def ref_def ref_aead_encrypt_def ref_tag_def
      local0_def key0_def eval_nat_numeral)

lemma decrypt_example:
  "V2Local_decrypt ref local0 ''!dlrow olleHrrrrrrrrrrrr!dlrow olleHkkkk!dlr!dlrow o'' ''foot'' []
     = Inr ''Hello world!''"
  by (simp add: V2Local_decrypt_def slice_def slice_from_def clamp_index_def
      ref_def ref_aead_decrypt_def ref_tag_def local0_def key0_def eval_nat_numeral)

text \<open>
  C1 (as the code has it). For every 32-byte v2 local key, payload and footer, and every
  nonce seed that is empty (so that 24 random bytes are drawn, whatever they are) or has
  24 bytes, \<open>V2Local.encrypt\<close> returns a token: the header, the base64url text of the
  payload bytes \<open>nonce || ciphertext || tag\<close> and, for a non-empty footer, a dot and the
  base64url text of the footer; \<open>V2Local.decrypt\<close> applied to these payload bytes and the
  same footer returns the original payload. For a v2 public-mode key that holds a private
  key, every footer and every payload that is not empty, \<open>sign\<close> returns a 64-byte
  signature, and \<open>verify\<close> applied to the payload bytes \<open>payload || signature\<close> of the token
  (section 4.2 of the spec; \<open>sign\<close> leaves the concatenation to its caller) and the same
  footer returns the payload, with the signing key and with the key that holds the derived
  public key. The collaborators are assumed to meet their contracts.
\<close>

theorem round_trip_local_and_public:
  "(blake2b_contract P \<and> aead_contract P \<and> V2Local_init key = Inr self
      \<and> (nonce = [] \<or> length nonce = 24) \<longrightarrow>
      (\<exists>n c tag. length n = 24 \<and> length tag = 16
         \<and> V2Local_encrypt P ent self payload footer ia nonce =
              Inr (if footer \<noteq> []
                   then ''v2.local.'' @ base64url_encode P (n @ c @ tag)
                          @ ''.'' @ base64url_encode P footer
                   else ''v2.local.'' @ base64url_encode P (n @ c @ tag))
         \<and> V2Local_decrypt P self (n @ c @ tag) footer ia' = Inr payload))
   \<and> (ed25519_contract P \<and> valid_private_bytes P sk
      \<and> V2Public_init (Ed25519PrivateKey sk) = Inr s
      \<and> V2Public_init (Ed25519PublicKey (ed25519_public_key P sk)) = Inr p
      \<and> payload \<noteq> [] \<longrightarrow>
      (\<exists>sig. length sig = 64 \<and> V2Public_sign P s payload footer ia = Inr sig
         \<and> V2Public_verify P s (payload @ sig) footer ia' = Inr payload
         \<and> V2Public_verify P p (payload @ sig) footer ia' = Inr payload))"
  using local_round_trip [of P key self nonce ent payload footer ia ia']
    public_round_trip [of P sk s p payload footer ia ia']
  by blast

theorem round_trip_local_and_public_witness:
  "(\<exists>n c tag. length n = 24 \<and> length tag = 16
     \<and> V2Local_encrypt ref ent0 local0 ''Hello world!'' ''foot'' [] [] =
          Inr (''v2.local.'' @ base64url_encode ref (n @ c @ tag)
                 @ ''.'' @ base64url_encode ref ''foot'')
     \<and> V2Local_decrypt ref local0 (n @ c @ tag) ''foot'' [] = Inr ''Hello world!'')
   \<and> V2Local_encrypt ref ent0 local0 ''Hello world!'' ''foot'' [] []
       = Inr ''v2.local.!dlrow olleHrrrrrrrrrrrr!dlrow olleHkkkk!dlr!dlrow o.foot''
   \<and> V2Local_decrypt ref local0 ''!dlrow olleHrrrrrrrrrrrr!dlrow olleHkkkk!dlr!dlrow o'' ''foot'' []
       = Inr ''Hello world!''
   \<and> (\<exists>sig. length sig = 64 \<and> V2Public_sign ref secret0 ''Hello world!'' ''foot'' [] = Inr sig
         \<and> V2Public_verify ref secret0 (''Hello world!'' @ sig) ''foot'' [] = Inr ''Hello world!''
         \<and> V2Public_verify ref public0 (''Hello world!'' @ sig) ''foot'' [] = Inr ''Hello world!'')"
proof -
  note T = round_trip_local_and_public [where P = ref and key = key0 and self = local0
      and nonce = "[]" and ent = ent0 and payload = "''Hello world!''" and footer = "''foot''"
      and ia = "[]" and ia' = "[]" and sk = raw0 and s = secret0 and p = public0]
  have l: "blake2b_contract ref \<and> aead_contract ref \<and> V2Local_init key0 = Inr local0
      \<and> (([]::bytes) = [] \<or> length ([]::bytes) = 24)"
    by (simp add: blake2b_contract_ref aead_contract_ref V2Local_init_key0)
  have q: "ed25519_contract ref \<and> valid_private_bytes ref raw0
      \<and> V2Public_init (Ed25519PrivateKey raw0) = Inr secret0
      \<and> V2Public_init (Ed25519PublicKey (ed25519_public_key ref raw0)) = Inr public0
      \<and> ''Hello world!'' \<noteq> []"
    by (simp add: ed25519_contract_ref valid_bytes_raw0 V2Public_init_secret0
        V2Public_init_public0 ref_public_key_raw0)
  have "\<exists>n c tag. length n = 24 \<and> length tag = 16
     \<and> V2Local_encrypt ref ent0 local0 ''Hello world!'' ''foot'' [] [] =
          Inr (''v2.local.'' @ base64url_encode ref (n @ c @ tag)
                 @ ''.'' @ base64url_encode ref ''foot'')
     \<and> V2Local_decrypt ref local0 (n @ c @ tag) ''foot'' [] = Inr ''Hello world!''"
    using T [THEN conjunct1, THEN mp, OF l] by simp
  moreover have "\<exists>sig. length sig = 64 \<and> V2Public_sign ref secret0 ''Hello world!'' ''foot'' [] = Inr sig
         \<and> V2Public_verify ref secret0 (''Hello world!'' @ sig) ''foot'' [] = Inr ''Hello world!''
         \<and> V2Public_verify ref public0 (''Hello world!'' @ sig) ''foot'' [] = Inr ''Hello world!''"
    by (rule T [THEN conjunct2, THEN mp, OF q])
  ultimately show ?thesis
    using encrypt_example decrypt_example by (intro conjI)
qed

text \<open>C1 as the spec words it, the round trip for every valid key, payload and footer,
  fails for a v2 public-mode key and the empty payload: \<open>sign\<close> returns a 64-byte
  signature, the payload bytes \<open>payload || signature\<close> are then these 64 bytes, and
  \<open>verify\<close> rejects them with ValueError instead of returning the empty payload.\<close>

theorem public_round_trip_empty_payload_counterexample:
  "V2Public_sign ref secret0 [] [] []
     = Inr (ref_signature (ref_public_key raw0) (pae [''v2.public.'', [], []]))
   \<and> length (ref_signature (ref_public_key raw0) (pae [''v2.public.'', [], []])) = 64
   \<and> V2Public_verify ref secret0
         ([] @ ref_signature (ref_public_key raw0) (pae [''v2.public.'', [], []])) [] []
       = Inl (ValueError ''Invalid payload.'')
   \<and> V2Public_verify ref secret0
         ([] @ ref_signature (ref_public_key raw0) (pae [''v2.public.'', [], []])) [] []
       \<noteq> Inr []"
proof -
  have key: "k_key secret0 = Ed25519PrivateKey raw0" and hdr: "k_header secret0 = ''v2.public.''"
    and size: "k_sig_size secret0 = 64"
    by (simp_all add: secret0_def)
  have sign: "V2Public_sign ref secret0 [] [] []
     = Inr (ref_signature (ref_public_key raw0) (pae [''v2.public.'', [], []]))"
    by (simp add: V2Public_sign_def key hdr ref_sign_raw0)
  have verify: "V2Public_verify ref secret0
         ([] @ ref_signature (ref_public_key raw0) (pae [''v2.public.'', [], []])) [] []
       = Inl (ValueError ''Invalid payload.'')"
    by (simp add: V2Public_verify_def size length_ref_signature)
  from sign verify show ?thesis
    by (simp add: length_ref_signature)
qed

subsection \<open>Key construction\<close>




subsection \<open>PASERK\<close>

lemma split_paserk_local:
  "CHR ''.'' \<notin> set e \<Longrightarrow> split (CHR ''.'') (''k2.local.'' @ e) = [''k2'', ''local'', e]"
  by (simp add: split_no_sep)

lemma split_paserk_public:
  "CHR ''.'' \<notin> set e \<Longrightarrow> split (CHR ''.'') (''k2.public.'' @ e) = [''k2'', ''public'', e]"
  by (simp add: split_no_sep)

lemma split_paserk_secret:
  "CHR ''.'' \<notin> set e \<Longrightarrow> split (CHR ''.'') (''k2.secret.'' @ e) = [''k2'', ''secret'', e]"
  by (simp add: split_no_sep)

lemma getitem3: "getitem [a, b, c] 0 = Inr a" "getitem [a, b, c] 1 = Inr b" "getitem [a, b, c] 2 = Inr c"
  by (simp_all add: getitem_def)

text \<open>
  C8. \<open>from_paserk\<close> undoes \<open>to_paserk\<close> on every v2 key. A local key comes back with the
  same 32 bytes (and the same version, purpose and header). For a public-mode key the
  PASERK type is "public" when the held object is a public key and "secret" when it is a
  private key, and \<open>from_paserk\<close> rebuilds a key object of that kind from the decoded
  bytes. The reconstructed key equals the original, so every operation behaves the same
  on both. The base64url codec is assumed to decode what it encodes without a dot in its
  output, and the key parsers to accept the raw bytes of the key they are given back.
\<close>

theorem paserk_round_trip:
  assumes "base64url_contract P"
  shows "(V2Local_init key = Inr l \<longrightarrow>
            LocalKey_to_paserk P l = ''k2.local.'' @ base64url_encode P key
          \<and> V2Local_from_paserk P (LocalKey_to_paserk P l) = Inr l)
       \<and> (V2Public_init (Ed25519PublicKey raw) = Inr p \<and> valid_public_bytes P raw \<longrightarrow>
            V2Public_to_paserk P p = Inr (''k2.public.'' @ base64url_encode P raw)
          \<and> V2Public_from_paserk P (''k2.public.'' @ base64url_encode P raw) = Inr p)
       \<and> (V2Public_init (Ed25519PrivateKey raw) = Inr s \<and> valid_private_bytes P raw \<longrightarrow>
            V2Public_to_paserk P s = Inr (''k2.secret.'' @ base64url_encode P raw)
          \<and> V2Public_from_paserk P (''k2.secret.'' @ base64url_encode P raw) = Inr s)"
proof -
  have dec: "base64url_decode P (base64url_encode P x) = Some x"
    and dot: "CHR ''.'' \<notin> set (base64url_encode P x)" for x
    using assms by (simp_all add: base64url_contract_def)
  have local: "LocalKey_to_paserk P l = ''k2.local.'' @ base64url_encode P key
          \<and> V2Local_from_paserk P (LocalKey_to_paserk P l) = Inr l"
    if init: "V2Local_init key = Inr l"
  proof -
    from init have l: "k_version l = 2" "k_key l = key"
      by (simp_all add: V2Local_init_Inr)
    have p: "LocalKey_to_paserk P l = ''k2.local.'' @ base64url_encode P key"
      by (simp add: LocalKey_to_paserk_def l version_str_def)
    have "V2Local_from_paserk P (''k2.local.'' @ base64url_encode P key) = V2Local_init key"
      by (simp only: V2Local_from_paserk_def Let_def split_paserk_local [OF dot] getitem3)
        (simp add: dec)
    with p init show ?thesis by simp
  qed
  have pub: "V2Public_to_paserk P p = Inr (''k2.public.'' @ base64url_encode P raw)
          \<and> V2Public_from_paserk P (''k2.public.'' @ base64url_encode P raw) = Inr p"
    if init: "V2Public_init (Ed25519PublicKey raw) = Inr p" and valid: "valid_public_bytes P raw"
  proof -
    from init have k: "k_key p = Ed25519PublicKey raw"
      by (simp add: V2Public_init_Inr)
    have "V2Public_from_paserk P (''k2.public.'' @ base64url_encode P raw)
            = V2Public_init (Ed25519PublicKey raw)"
      by (simp only: V2Public_from_paserk_def Let_def split_paserk_public [OF dot] getitem3 dec)
        (simp add: valid dec)
    with init k show ?thesis by (simp add: V2Public_to_paserk_def)
  qed
  have sec: "V2Public_to_paserk P s = Inr (''k2.secret.'' @ base64url_encode P raw)
          \<and> V2Public_from_paserk P (''k2.secret.'' @ base64url_encode P raw) = Inr s"
    if init: "V2Public_init (Ed25519PrivateKey raw) = Inr s" and valid: "valid_private_bytes P raw"
  proof -
    from init have k: "k_key s = Ed25519PrivateKey raw"
      by (simp add: V2Public_init_Inr)
    have "V2Public_from_paserk P (''k2.secret.'' @ base64url_encode P raw)
            = V2Public_init (Ed25519PrivateKey raw)"
      by (simp only: V2Public_from_paserk_def Let_def split_paserk_secret [OF dot] getitem3 dec)
        (simp add: valid dec)
    with init k show ?thesis by (simp add: V2Public_to_paserk_def)
  qed
  from local pub sec show ?thesis by blast
qed

theorem paserk_round_trip_witness:
  "V2Local_from_paserk ref (LocalKey_to_paserk ref local0) = Inr local0
   \<and> V2Public_to_paserk ref public0 = Inr (''k2.public.'' @ base64url_encode ref raw0)
   \<and> V2Public_from_paserk ref (''k2.public.'' @ base64url_encode ref raw0) = Inr public0
   \<and> V2Public_to_paserk ref secret0 = Inr (''k2.secret.'' @ base64url_encode ref raw0)
   \<and> V2Public_from_paserk ref (''k2.secret.'' @ base64url_encode ref raw0) = Inr secret0"
  using paserk_round_trip [OF base64url_contract_ref, of key0 local0 raw0 public0 secret0]
    V2Local_init_key0 V2Public_init_public0 V2Public_init_secret0 valid_bytes_raw0
  by blast

text \<open>
  C9. \<open>to_paserk_id\<close> of a v2 key is \<open>h + base64url(d)\<close>, where \<open>d\<close> is the unkeyed
  \<open>blake2b(digest_size = 33)\<close> of \<open>h + to_paserk(key)\<close> and the prefix \<open>h\<close> is "k2.lid."
  for a local key, "k2.pid." for a key holding a public key and "k2.sid." for a key
  holding a private key. The identifier is a function of the key (and of the
  collaborators), and the identifiers of two keys of different roles differ, whatever
  their material.
\<close>

theorem paserk_id_prefix_and_roles:
  "V2Local_to_paserk_id P l =
     (case blake2b P [] 33 (''k2.lid.'' @ LocalKey_to_paserk P l) of
        None \<Rightarrow> Inl LibraryError
      | Some d \<Rightarrow> Inr (''k2.lid.'' @ base64url_encode P d))
   \<and> (k_key p = Ed25519PublicKey raw \<longrightarrow>
        V2Public_to_paserk P p = Inr (''k2.public.'' @ base64url_encode P raw)
      \<and> V2Public_to_paserk_id P p =
          (case blake2b P [] 33 (''k2.pid.'' @ ''k2.public.'' @ base64url_encode P raw) of
             None \<Rightarrow> Inl LibraryError
           | Some d \<Rightarrow> Inr (''k2.pid.'' @ base64url_encode P d)))
   \<and> (k_key s = Ed25519PrivateKey raw' \<longrightarrow>
        V2Public_to_paserk P s = Inr (''k2.secret.'' @ base64url_encode P raw')
      \<and> V2Public_to_paserk_id P s =
          (case blake2b P [] 33 (''k2.sid.'' @ ''k2.secret.'' @ base64url_encode P raw') of
             None \<Rightarrow> Inl LibraryError
           | Some d \<Rightarrow> Inr (''k2.sid.'' @ base64url_encode P d)))
   \<and> (k_key p = Ed25519PublicKey raw \<and> V2Local_to_paserk_id P l = Inr i
        \<and> V2Public_to_paserk_id P p = Inr j \<longrightarrow> i \<noteq> j)
   \<and> (k_key s = Ed25519PrivateKey raw' \<and> V2Local_to_paserk_id P l = Inr i
        \<and> V2Public_to_paserk_id P s = Inr k \<longrightarrow> i \<noteq> k)
   \<and> (k_key p = Ed25519PublicKey raw \<and> k_key s = Ed25519PrivateKey raw'
        \<and> V2Public_to_paserk_id P p = Inr j \<and> V2Public_to_paserk_id P s = Inr k \<longrightarrow> j \<noteq> k)"
proof -
  have lid: "V2Local_to_paserk_id P l =
     (case blake2b P [] 33 (''k2.lid.'' @ LocalKey_to_paserk P l) of
        None \<Rightarrow> Inl LibraryError
      | Some d \<Rightarrow> Inr (''k2.lid.'' @ base64url_encode P d))"
    by (simp add: V2Local_to_paserk_id_def)
  have pid: "V2Public_to_paserk P p = Inr (''k2.public.'' @ base64url_encode P raw)
      \<and> V2Public_to_paserk_id P p =
          (case blake2b P [] 33 (''k2.pid.'' @ ''k2.public.'' @ base64url_encode P raw) of
             None \<Rightarrow> Inl LibraryError
           | Some d \<Rightarrow> Inr (''k2.pid.'' @ base64url_encode P d))"
    if "k_key p = Ed25519PublicKey raw"
    using that by (simp add: V2Public_to_paserk_id_def V2Public_to_paserk_def)
  have sid: "V2Public_to_paserk P s = Inr (''k2.secret.'' @ base64url_encode P raw')
      \<and> V2Public_to_paserk_id P s =
          (case blake2b P [] 33 (''k2.sid.'' @ ''k2.secret.'' @ base64url_encode P raw') of
             None \<Rightarrow> Inl LibraryError
           | Some d \<Rightarrow> Inr (''k2.sid.'' @ base64url_encode P d))"
    if "k_key s = Ed25519PrivateKey raw'"
    using that by (simp add: V2Public_to_paserk_id_def V2Public_to_paserk_def)
  have li: "\<exists>x. i = ''k2.lid.'' @ x" if "V2Local_to_paserk_id P l = Inr i"
    using that unfolding lid by (auto split: option.splits)
  have pj: "\<exists>x. j = ''k2.pid.'' @ x"
    if "k_key p = Ed25519PublicKey raw" "V2Public_to_paserk_id P p = Inr j"
    using that(2) pid [OF that(1)] by (auto split: option.splits)
  have sk: "\<exists>x. k = ''k2.sid.'' @ x"
    if "k_key s = Ed25519PrivateKey raw'" "V2Public_to_paserk_id P s = Inr k"
    using that(2) sid [OF that(1)] by (auto split: option.splits)
  have ij: "i \<noteq> j" if "k_key p = Ed25519PublicKey raw" "V2Local_to_paserk_id P l = Inr i"
      "V2Public_to_paserk_id P p = Inr j"
    using li [OF that(2)] pj [OF that(1,3)] by auto
  have ik: "i \<noteq> k" if "k_key s = Ed25519PrivateKey raw'" "V2Local_to_paserk_id P l = Inr i"
      "V2Public_to_paserk_id P s = Inr k"
    using li [OF that(2)] sk [OF that(1,3)] by auto
  have jk: "j \<noteq> k" if "k_key p = Ed25519PublicKey raw" "k_key s = Ed25519PrivateKey raw'"
      "V2Public_to_paserk_id P p = Inr j" "V2Public_to_paserk_id P s = Inr k"
    using pj [OF that(1,3)] sk [OF that(2,4)] by auto
  from lid pid sid ij ik jk show ?thesis by blast
qed

lemma ref_blake2b_33:
  "blake2b ref [] 33 msg = Some (the (ref_blake2b [] 33 msg))"
  by (simp add: ref_def ref_blake2b_def)

theorem paserk_id_prefix_and_roles_witness:
  "V2Local_to_paserk_id ref local0
     = Inr (''k2.lid.'' @ base64url_encode ref
             (the (ref_blake2b [] 33 (''k2.lid.'' @ LocalKey_to_paserk ref local0))))
   \<and> V2Public_to_paserk_id ref public0
     = Inr (''k2.pid.'' @ base64url_encode ref
             (the (ref_blake2b [] 33 (''k2.pid.'' @ ''k2.public.'' @ base64url_encode ref raw0))))
   \<and> V2Public_to_paserk_id ref secret0
     = Inr (''k2.sid.'' @ base64url_encode ref
             (the (ref_blake2b [] 33 (''k2.sid.'' @ ''k2.secret.'' @ base64url_encode ref raw0))))
   \<and> V2Local_to_paserk_id ref local0 \<noteq> V2Public_to_paserk_id ref public0
   \<and> V2Local_to_paserk_id ref local0 \<noteq> V2Public_to_paserk_id ref secret0
   \<and> V2Public_to_paserk_id ref public0 \<noteq> V2Public_to_paserk_id ref secret0"
proof -
  have kp: "k_key public0 = Ed25519PublicKey raw0" and ks: "k_key secret0 = Ed25519PrivateKey raw0"
    by (simp_all add: public0_def secret0_def)
  let ?i = "''k2.lid.'' @ base64url_encode ref
             (the (ref_blake2b [] 33 (''k2.lid.'' @ LocalKey_to_paserk ref local0)))"
  let ?j = "''k2.pid.'' @ base64url_encode ref
             (the (ref_blake2b [] 33 (''k2.pid.'' @ ''k2.public.'' @ base64url_encode ref raw0)))"
  let ?k = "''k2.sid.'' @ base64url_encode ref
             (the (ref_blake2b [] 33 (''k2.sid.'' @ ''k2.secret.'' @ base64url_encode ref raw0)))"
  note T = paserk_id_prefix_and_roles [of ref local0 public0 raw0 secret0 raw0 ?i ?j ?k]
  have i: "V2Local_to_paserk_id ref local0 = Inr ?i"
    by (simp only: T [THEN conjunct1] ref_blake2b_33 option.case)
  have j: "V2Public_to_paserk_id ref public0 = Inr ?j"
    using T [THEN conjunct2, THEN conjunct1, THEN mp, OF kp, THEN conjunct2]
    by (simp only: ref_blake2b_33 option.case)
  have k: "V2Public_to_paserk_id ref secret0 = Inr ?k"
    using T [THEN conjunct2, THEN conjunct2, THEN conjunct1, THEN mp, OF ks, THEN conjunct2]
    by (simp only: ref_blake2b_33 option.case)
  from T kp ks i j k have "?i \<noteq> ?j \<and> ?i \<noteq> ?k \<and> ?j \<noteq> ?k"
    by blast
  with i j k show ?thesis
    by (simp only: sum.inject) blast
qed

end
